theory Spec2Isabelle
  imports Complex_Main
begin

section \<open>Python values used by main.py\<close>

text \<open>
  An exception is its class name and its message. \<open>raise ValueError(msg)\<close> is the only
  \<open>raise\<close> statement of main.py.
\<close>

datatype py_exception = PyException (exc_class: string) (exc_message: string)

definition ValueError :: "string \<Rightarrow> py_exception" where
  "ValueError msg = PyException ''ValueError'' msg"

text \<open>
  The process environment is a dictionary of strings; \<open>os.getenv(k)\<close> is \<open>None\<close> for
  a variable that is not set. \<open>not v\<close> holds of \<open>None\<close> and of the empty string.
\<close>

type_synonym environ = "string \<rightharpoonup> string"

definition getenv :: "environ \<Rightarrow> string \<Rightarrow> string option" where
  "getenv env k = env k"

definition truthy :: "string option \<Rightarrow> bool" where
  "truthy v = (case v of None \<Rightarrow> False | Some s \<Rightarrow> s \<noteq> [])"

section \<open>Module level: the API keys (lines 34 to 44)\<close>

record api_keys =
  deepgram_api_key :: string
  openai_api_key :: string
  elevenlabs_api_key :: string

text \<open>
  The three lookups run in this order when the module is imported; the first key that is
  missing or empty raises, and nothing below it runs.
\<close>

definition load_api_keys :: "environ \<Rightarrow> py_exception + api_keys" where
  "load_api_keys env =
     (case getenv env ''DEEPGRAM_API_KEY'' of
        None \<Rightarrow> Inl (ValueError ''DEEPGRAM_API_KEY must be set'')
      | Some d \<Rightarrow>
          if d = [] then Inl (ValueError ''DEEPGRAM_API_KEY must be set'')
          else
            (case getenv env ''OPENAI_API_KEY'' of
               None \<Rightarrow> Inl (ValueError ''OPENAI_API_KEY'')
             | Some oa \<Rightarrow>
                 if oa = [] then Inl (ValueError ''OPENAI_API_KEY'')
                 else
                   (case getenv env ''ELEVENLABS_API_KEY'' of
                      None \<Rightarrow> Inl (ValueError ''ELEVENLABS_API_KEY must be set'')
                    | Some el \<Rightarrow>
                        if el = [] then Inl (ValueError ''ELEVENLABS_API_KEY must be set'')
                        else Inr \<lparr>deepgram_api_key = d, openai_api_key = oa,
                                  elevenlabs_api_key = el\<rparr>)))"

section \<open>The objects run_bot constructs (lines 52 to 136)\<close>

text \<open>
  Each constructor call of the source is a constructor here, with the keyword arguments
  in the order the source writes them. The float literals of \<open>VADParams\<close> are kept as the
  decimal fractions the source text gives.
\<close>

datatype vad_params =
  VADParams (min_volume: rat) (start_secs: rat) (stop_secs: rat) (confidence: rat)

datatype vad_analyzer = SileroVADAnalyzer vad_params

datatype frame_serializer = ProtobufFrameSerializer

datatype websocket_params =
  FastAPIWebsocketParams (audio_out_enabled: bool) (add_wav_header: bool) (vad_enabled: bool)
    (vad_analyzer: vad_analyzer) (vad_audio_passthrough: bool) (serializer: frame_serializer)

datatype 'w transport = FastAPIWebsocketTransport 'w websocket_params

datatype transport_params = TransportParams bool

datatype live_options =
  LiveOptions (encoding: string) (language: string) (model: string) (sample_rate: nat)
    (channels: nat) (interim_results: bool) (smart_format: bool)

datatype chat_message = ChatMessage (role: string) (content: string)

datatype llm_context = OpenAILLMContext "chat_message list"

datatype http_session = ClientSession

text \<open>
  The processors that can stand in the list given to \<open>Pipeline\<close>:
  \<open>transport.input()\<close>, the three vendor services, the two halves of
  \<open>llm.create_context_aggregator(context)\<close>, the avatar service and the output transport.
\<close>

datatype 'w processor =
    is_TransportInput: TransportInput "'w transport"
  | DeepgramSTTService string live_options
  | ContextAggregatorUser llm_context
  | OpenAILLMService string string
  | ElevenLabsTTSService string string string
  | is_HeyGenVideoService: HeyGenVideoService string string http_session string
  | BaseOutputTransport transport_params
  | ContextAggregatorAssistant llm_context

datatype 'w pipeline = Pipeline (processors: "'w processor list")

datatype pipeline_params = PipelineParams (allow_interruptions: bool)

datatype 'w pipeline_task =
  PipelineTask (task_pipeline: "'w pipeline") (task_params: pipeline_params)

definition system_prompt :: string where
  "system_prompt = ''You are a helpful LLM in a WebRTC call. Your goal is to demonstrate your capabilities in a succinct way. Your output will be converted to audio so don't include special characters in your answers. Respond to what the user said in a creative and helpful way. Be brief, concise, and to the point.''"

text \<open>
  \<open>run_bot\<close> up to the task it hands to \<open>runner.run\<close>: the transport it builds and the
  task. Running the task is the library's work and is not part of this function.
\<close>

record 'w bot =
  bot_transport :: "'w transport"
  bot_task :: "'w pipeline_task"

definition run_bot :: "api_keys \<Rightarrow> 'w \<Rightarrow> string \<Rightarrow> string \<Rightarrow> string \<Rightarrow> 'w bot" where
  "run_bot keys websocket_client session_id session_token realtime_endpoint =
     (let session = ClientSession;
          params = VADParams 0.6 0.2 1.2 0.7;
          transport = FastAPIWebsocketTransport websocket_client
            (FastAPIWebsocketParams True True True (SileroVADAnalyzer params) True
               ProtobufFrameSerializer);
          stt = DeepgramSTTService (deepgram_api_key keys)
            (LiveOptions ''linear16'' ''en-US'' ''nova-2-conversationalai'' 16000 1 True True);
          llm = OpenAILLMService (openai_api_key keys) ''gpt-4o-mini'';
          messages = [ChatMessage ''system'' system_prompt];
          context = OpenAILLMContext messages;
          tts = ElevenLabsTTSService (elevenlabs_api_key keys) ''29vD33N1CtxCmqQRPOHJ''
            ''pcm_24000'';
          heygen_video_service =
            HeyGenVideoService session_id session_token session realtime_endpoint;
          output_transport = BaseOutputTransport (TransportParams True);
          pipeline = Pipeline
            [TransportInput transport,
             stt,
             ContextAggregatorUser context,
             llm,
             tts,
             heygen_video_service,
             output_transport,
             ContextAggregatorAssistant context];
          task = PipelineTask pipeline (PipelineParams True)
      in \<lparr>bot_transport = transport, bot_task = task\<rparr>)"

text \<open>
  The websocket route (lines 153 to 168) logs, accepts the connection and calls
  \<open>run_bot\<close> with its own four arguments.
\<close>

definition websocket_endpoint :: "api_keys \<Rightarrow> 'w \<Rightarrow> string \<Rightarrow> string \<Rightarrow> string \<Rightarrow> 'w bot" where
  "websocket_endpoint keys websocket session_id session_token realtime_endpoint =
     run_bot keys websocket session_id session_token realtime_endpoint"

section \<open>The receive loop of the input transport (lines 73 to 84)\<close>

text \<open>
  A frame is an \<open>AudioRawFrame\<close> (or an instance of a subclass, which \<open>isinstance\<close>
  accepts as well), the \<open>EndFrame\<close> the disconnect handler queues, or a frame of any
  other class. The payloads are left open.
\<close>

datatype ('a, 'o) frame =
    is_AudioRawFrame: AudioRawFrame 'a
  | EndFrame
  | OtherFrame 'o

text \<open>
  The calls the receive loop makes on its transport that have returned, in the order
  they were made: \<open>self.push_audio_frame(frame)\<close>, \<open>self._internal_push_frame(frame)\<close>
  and \<open>self._callbacks.on_client_disconnected(self._websocket)\<close>.
\<close>

datatype ('a, 'o) call =
    PushAudioFrame "('a, 'o) frame"
  | InternalPushFrame "('a, 'o) frame"
  | OnClientDisconnected

text \<open>
  \<open>self._websocket.iter_bytes()\<close> yields the messages of the connection and then
  either stops (the \<open>async for\<close> ends and the statement after it runs) or raises (the
  exception leaves \<open>async for\<close> and the function, which has no \<open>try\<close>).
\<close>

datatype stream_end = StopAsyncIteration | Raises py_exception

text \<open>
  The transport \<open>self\<close> that the patched function is bound to. main.py defines none of
  the things it uses of it, so each is a parameter, and each may raise:
  \<^item> \<open>self._params.serializer.deserialize(message)\<close> returns a frame, returns the falsy
    \<open>None\<close>, or raises;
  \<^item> \<open>await self.push_audio_frame(frame)\<close> and \<open>await self._internal_push_frame(frame)\<close>
    return (\<open>None\<close> here) or raise, the second also when the transport has no attribute
    of that name; what they do may depend on the calls made before;
  \<^item> so may \<open>await self._callbacks.on_client_disconnected(self._websocket)\<close>.
\<close>

record ('m, 'a, 'o) input_transport =
  deserialize :: "'m \<Rightarrow> py_exception + ('a, 'o) frame option"
  push_audio_frame :: "('a, 'o) call list \<Rightarrow> ('a, 'o) frame \<Rightarrow> py_exception option"
  internal_push_frame :: "('a, 'o) call list \<Rightarrow> ('a, 'o) frame \<Rightarrow> py_exception option"
  callbacks_on_client_disconnected :: "('a, 'o) call list \<Rightarrow> py_exception option"

text \<open>
  The \<open>async for\<close> over the messages the stream yields. \<open>done\<close> holds the calls that
  have returned so far. The result is the calls that returned and the exception that
  left the loop body, if one did: nothing in the body catches it, so the first one ends
  the loop.
\<close>

fun receive_loop ::
  "('m, 'a, 'o) input_transport \<Rightarrow> ('a, 'o) call list \<Rightarrow> 'm list
     \<Rightarrow> ('a, 'o) call list \<times> py_exception option" where
  "receive_loop self done [] = (done, None)"
| "receive_loop self done (message # rest) =
     (case deserialize self message of
        Inl e \<Rightarrow> (done, Some e)
      | Inr None \<Rightarrow> receive_loop self done rest
      | Inr (Some frame) \<Rightarrow>
          if is_AudioRawFrame frame then
            (case push_audio_frame self done frame of
               Some e \<Rightarrow> (done, Some e)
             | None \<Rightarrow> receive_loop self (done @ [PushAudioFrame frame]) rest)
          else
            (case internal_push_frame self done frame of
               Some e \<Rightarrow> (done, Some e)
             | None \<Rightarrow> receive_loop self (done @ [InternalPushFrame frame]) rest))"

record ('a, 'o) received =
  calls :: "('a, 'o) call list"
  raised :: "py_exception option"

text \<open>
  The whole function: the loop, and after it, when the loop ended because the stream
  stopped, the disconnect callback. An exception from the loop body or from the stream
  leaves the function before the callback.
\<close>

definition patched_receive_messages ::
  "('m, 'a, 'o) input_transport \<Rightarrow> 'm list \<Rightarrow> stream_end \<Rightarrow> ('a, 'o) received" where
  "patched_receive_messages self messages ending =
     (case receive_loop self [] messages of
        (done, Some e) \<Rightarrow> \<lparr>calls = done, raised = Some e\<rparr>
      | (done, None) \<Rightarrow>
          (case ending of
             Raises e \<Rightarrow> \<lparr>calls = done, raised = Some e\<rparr>
           | StopAsyncIteration \<Rightarrow>
               (case callbacks_on_client_disconnected self done of
                  Some e \<Rightarrow> \<lparr>calls = done, raised = Some e\<rparr>
                | None \<Rightarrow> \<lparr>calls = done @ [OnClientDisconnected], raised = None\<rparr>)))"

text \<open>
  The handler registered for \<open>on_client_disconnected\<close> (lines 142 to 145) logs and calls
  \<open>task.queue_frames([EndFrame()])\<close>. \<open>queued_frames\<close> collects what the handler
  queues into the task over a run of the receive loop.
\<close>

definition on_client_disconnected :: "('a, 'o) frame list" where
  "on_client_disconnected = [EndFrame]"

fun queued_frames :: "('a, 'o) call list \<Rightarrow> ('a, 'o) frame list" where
  "queued_frames [] = []"
| "queued_frames (OnClientDisconnected # cs) = on_client_disconnected @ queued_frames cs"
| "queued_frames (PushAudioFrame f # cs) = queued_frames cs"
| "queued_frames (InternalPushFrame f # cs) = queued_frames cs"

section \<open>The module as a whole\<close>

text \<open>
  Importing main.py runs the key lookups first. Only when all three succeed do
  \<open>run_bot\<close>, the route and the app exist, and each accepted connection, with its three
  query parameters, is one call of \<open>websocket_endpoint\<close>.
\<close>

definition main_module ::
  "environ \<Rightarrow> ('w \<times> string \<times> string \<times> string) list \<Rightarrow> py_exception + 'w bot list" where
  "main_module env connections =
     (case load_api_keys env of
        Inl e \<Rightarrow> Inl e
      | Inr keys \<Rightarrow>
          Inr (map (\<lambda>(websocket, session_id, session_token, realtime_endpoint).
                 websocket_endpoint keys websocket session_id session_token realtime_endpoint)
               connections))"


section \<open>Concrete inputs\<close>

text \<open>
  A serializer to run the receive loop on: a message is a list of bytes whose first byte
  is a tag, 1 for audio and 2 for another frame; anything else does not decode.
\<close>

definition tagged_deserialize ::
  "nat list \<Rightarrow> py_exception + (nat list, nat list) frame option" where
  "tagged_deserialize message =
     (case message of
        [] \<Rightarrow> Inr None
      | tag # body \<Rightarrow>
          if tag = 1 then Inr (Some (AudioRawFrame body))
          else if tag = 2 then Inr (Some (OtherFrame body))
          else Inr None)"

text \<open>
  Two transports. On the first every call returns. The second has no
  \<open>_internal_push_frame\<close>: evaluating \<open>self._internal_push_frame\<close> raises
  \<open>AttributeError\<close>.
\<close>

definition transport_with_internal_push :: "(nat list, nat list, nat list) input_transport" where
  "transport_with_internal_push =
     \<lparr>deserialize = tagged_deserialize,
      push_audio_frame = (\<lambda>done frame. None),
      internal_push_frame = (\<lambda>done frame. None),
      callbacks_on_client_disconnected = (\<lambda>done. None)\<rparr>"

definition transport_without_internal_push :: "(nat list, nat list, nat list) input_transport" where
  "transport_without_internal_push =
     \<lparr>deserialize = tagged_deserialize,
      push_audio_frame = (\<lambda>done frame. None),
      internal_push_frame =
        (\<lambda>done frame. Some (PyException ''AttributeError'' ''_internal_push_frame'')),
      callbacks_on_client_disconnected = (\<lambda>done. None)\<rparr>"

definition env_without_openai :: environ where
  "env_without_openai =
     map_of [(''DEEPGRAM_API_KEY'', ''dg-key''), (''ELEVENLABS_API_KEY'', ''el-key'')]"

definition env_complete :: environ where
  "env_complete =
     map_of [(''DEEPGRAM_API_KEY'', ''dg-key''), (''OPENAI_API_KEY'', ''oa-key''),
             (''ELEVENLABS_API_KEY'', ''el-key'')]"


section \<open>The pipeline\<close>

text \<open>
  C1. The list given to \<open>Pipeline\<close>, and through it to the task, is the chain input
  transport, speech-to-text, user context aggregator, language model, text-to-speech,
  avatar service, output transport, assistant context aggregator, in this order. The
  input of the transport is its head and stands nowhere else, no processor stands in it
  twice, and it is a flat list of eight processors: none of them is itself a pipeline.
\<close>

theorem run_bot_pipeline_chain:
  "processors (task_pipeline (bot_task (run_bot keys ws sid tok ep))) =
     [TransportInput (FastAPIWebsocketTransport ws
        (FastAPIWebsocketParams True True True
           (SileroVADAnalyzer (VADParams 0.6 0.2 1.2 0.7)) True ProtobufFrameSerializer)),
      DeepgramSTTService (deepgram_api_key keys)
        (LiveOptions ''linear16'' ''en-US'' ''nova-2-conversationalai'' 16000 1 True True),
      ContextAggregatorUser (OpenAILLMContext [ChatMessage ''system'' system_prompt]),
      OpenAILLMService (openai_api_key keys) ''gpt-4o-mini'',
      ElevenLabsTTSService (elevenlabs_api_key keys) ''29vD33N1CtxCmqQRPOHJ'' ''pcm_24000'',
      HeyGenVideoService sid tok ClientSession ep,
      BaseOutputTransport (TransportParams True),
      ContextAggregatorAssistant (OpenAILLMContext [ChatMessage ''system'' system_prompt])]
   \<and> distinct (processors (task_pipeline (bot_task (run_bot keys ws sid tok ep))))
   \<and> hd (processors (task_pipeline (bot_task (run_bot keys ws sid tok ep)))) =
       TransportInput (bot_transport (run_bot keys ws sid tok ep))
   \<and> filter is_TransportInput (processors (task_pipeline (bot_task (run_bot keys ws sid tok ep)))) =
       [TransportInput (bot_transport (run_bot keys ws sid tok ep))]
   \<and> length (processors (task_pipeline (bot_task (run_bot keys ws sid tok ep)))) = 8"
  by (simp add: run_bot_def Let_def)

section \<open>The session strings\<close>

text \<open>
  C9. For every connection, the session identifier, the session token and the realtime
  endpoint the route receives reach the constructor of the avatar service as they are:
  the pipeline holds one \<open>HeyGenVideoService\<close>, built from exactly these three strings
  and the HTTP session of this call.
\<close>

theorem session_strings_pass_through:
  "filter is_HeyGenVideoService
     (processors (task_pipeline (bot_task
        (websocket_endpoint keys ws session_id session_token realtime_endpoint)))) =
   [HeyGenVideoService session_id session_token ClientSession realtime_endpoint]"
  by (simp add: websocket_endpoint_def run_bot_def Let_def)

section \<open>The receive loop\<close>

lemma receive_loop_append:
  "receive_loop self done (xs @ ys) =
     (case receive_loop self done xs of
        (tr, None) \<Rightarrow> receive_loop self tr ys
      | (tr, Some e) \<Rightarrow> (tr, Some e))"
  by (induction xs arbitrary: "done") (auto split: sum.splits option.splits)


lemma receive_loop_calls:
  "receive_loop self done ms = (tr, r) \<Longrightarrow>
     \<exists>new. tr = done @ new \<and> OnClientDisconnected \<notin> set new
       \<and> (\<forall>f. PushAudioFrame f \<in> set new \<longrightarrow> is_AudioRawFrame f)
       \<and> (\<forall>f. InternalPushFrame f \<in> set new \<longrightarrow> \<not> is_AudioRawFrame f)"
proof (induction ms arbitrary: "done")
  case Nil
  then show ?case by simp
next
  case (Cons m ms)
  show ?case
  proof (cases "deserialize self m")
    case (Inl e)
    with Cons.prems show ?thesis by simp
  next
    case (Inr v)
    show ?thesis
    proof (cases v)
      case None
      with Inr Cons.prems have "receive_loop self done ms = (tr, r)" by simp
      from Cons.IH [OF this] show ?thesis .
    next
      case (Some frame)
      show ?thesis
      proof (cases "is_AudioRawFrame frame")
        case True
        show ?thesis
        proof (cases "push_audio_frame self done frame")
          case None
          with Inr Some True Cons.prems
          have "receive_loop self (done @ [PushAudioFrame frame]) ms = (tr, r)" by simp
          from Cons.IH [OF this] obtain new where
            "tr = (done @ [PushAudioFrame frame]) @ new"
            "OnClientDisconnected \<notin> set new"
            "\<forall>f. PushAudioFrame f \<in> set new \<longrightarrow> is_AudioRawFrame f"
            "\<forall>f. InternalPushFrame f \<in> set new \<longrightarrow> \<not> is_AudioRawFrame f"
            by blast
          with True show ?thesis
            by (intro exI [of _ "PushAudioFrame frame # new"]) auto
        next
          case (Some e)
          with Inr \<open>v = Some frame\<close> True Cons.prems show ?thesis by simp
        qed
      next
        case False
        show ?thesis
        proof (cases "internal_push_frame self done frame")
          case None
          with Inr Some False Cons.prems
          have "receive_loop self (done @ [InternalPushFrame frame]) ms = (tr, r)" by simp
          from Cons.IH [OF this] obtain new where
            "tr = (done @ [InternalPushFrame frame]) @ new"
            "OnClientDisconnected \<notin> set new"
            "\<forall>f. PushAudioFrame f \<in> set new \<longrightarrow> is_AudioRawFrame f"
            "\<forall>f. InternalPushFrame f \<in> set new \<longrightarrow> \<not> is_AudioRawFrame f"
            by blast
          with False show ?thesis
            by (intro exI [of _ "InternalPushFrame frame # new"]) auto
        next
          case (Some e)
          with Inr \<open>v = Some frame\<close> False Cons.prems show ?thesis by simp
        qed
      qed
    qed
  qed
qed

lemma calls_patched:
  "calls (patched_receive_messages self ms ending) =
     fst (receive_loop self [] ms) @
       (if snd (receive_loop self [] ms) = None \<and> ending = StopAsyncIteration
           \<and> callbacks_on_client_disconnected self (fst (receive_loop self [] ms)) = None
        then [OnClientDisconnected] else [])"
  by (cases "receive_loop self [] ms")
     (auto simp: patched_receive_messages_def split: option.splits stream_end.splits)


lemma loop_calls_from_empty:
  "OnClientDisconnected \<notin> set (fst (receive_loop self [] ms))
   \<and> (\<forall>f. PushAudioFrame f \<in> set (fst (receive_loop self [] ms)) \<longrightarrow> is_AudioRawFrame f)
   \<and> (\<forall>f. InternalPushFrame f \<in> set (fst (receive_loop self [] ms)) \<longrightarrow> \<not> is_AudioRawFrame f)"
  using receive_loop_calls [of self "[]" ms "fst (receive_loop self [] ms)"
      "snd (receive_loop self [] ms)"]
  by auto




lemma transport_with_internal_push_run:
  "patched_receive_messages transport_with_internal_push [[0], [1, 5, 5], [2, 7], [1, 6]]
     StopAsyncIteration =
   \<lparr>calls = [PushAudioFrame (AudioRawFrame [5, 5]), InternalPushFrame (OtherFrame [7]),
             PushAudioFrame (AudioRawFrame [6]), OnClientDisconnected],
    raised = None\<rparr>"
  by (simp add: patched_receive_messages_def transport_with_internal_push_def
      tagged_deserialize_def)

text \<open>
  C10. A message whose deserialization gives no frame is skipped: the loop pushes nothing
  for it, neither a frame nor an error frame, raises nothing, and goes on with the next
  message, so the connection behaves as if the message had not been sent.
\<close>

theorem undecodable_message_skipped:
  assumes "deserialize self message = Inr None"
  shows "patched_receive_messages self (before @ message # rest) ending =
           patched_receive_messages self (before @ rest) ending
         \<and> receive_loop self done (message # rest) = receive_loop self done rest
         \<and> receive_loop self done [message] = (done, None)"
proof -
  have skip: "receive_loop self d (message # ms) = receive_loop self d ms" for d ms
    using assms by simp
  have "receive_loop self [] (before @ message # rest) = receive_loop self [] (before @ rest)"
    using assms by (simp add: receive_loop_append split: prod.splits option.splits)
  then have "patched_receive_messages self (before @ message # rest) ending =
      patched_receive_messages self (before @ rest) ending"
    by (simp add: patched_receive_messages_def)
  with skip [of "done" rest] skip [of "done" "[]"] show ?thesis by simp
qed

theorem undecodable_message_skipped_witness:
  "deserialize transport_without_internal_push [9, 9] = Inr None
   \<and> patched_receive_messages transport_without_internal_push [[1, 5], [9, 9], [1, 6]]
       StopAsyncIteration =
     patched_receive_messages transport_without_internal_push [[1, 5], [1, 6]]
       StopAsyncIteration
   \<and> patched_receive_messages transport_without_internal_push [[1, 5], [9, 9], [1, 6]]
       StopAsyncIteration =
     \<lparr>calls = [PushAudioFrame (AudioRawFrame [5]), PushAudioFrame (AudioRawFrame [6]),
               OnClientDisconnected],
      raised = None\<rparr>"
proof -
  have h: "deserialize transport_without_internal_push [9, 9] = Inr None"
    by (simp add: transport_without_internal_push_def tagged_deserialize_def)
  show ?thesis
    using h
      undecodable_message_skipped [of transport_without_internal_push "[9, 9]" "[[1, 5]]"
        "[[1, 6]]" StopAsyncIteration "[]"]
    by (simp add: patched_receive_messages_def transport_without_internal_push_def
        tagged_deserialize_def)
qed



text \<open>
  What the handler of lines 142 to 145 adds: when the callback runs, and only then, one
  \<open>EndFrame\<close> is queued into the task.
\<close>

lemma queued_frames_no_callback:
  "OnClientDisconnected \<notin> set cs \<Longrightarrow> queued_frames cs = []"
  by (induction cs rule: queued_frames.induct) simp_all

lemma queued_frames_append:
  "queued_frames (xs @ ys) = queued_frames xs @ queued_frames ys"
  by (induction xs rule: queued_frames.induct) simp_all

lemma queued_frames_patched:
  "queued_frames (calls (patched_receive_messages self messages ending)) =
     (if snd (receive_loop self [] messages) = None \<and> ending = StopAsyncIteration
         \<and> callbacks_on_client_disconnected self (fst (receive_loop self [] messages)) = None
      then [EndFrame] else [])"
  using loop_calls_from_empty [of self messages]
  by (simp add: calls_patched queued_frames_append queued_frames_no_callback
      on_client_disconnected_def)

lemma end_of_stream_queues_EndFrame:
  assumes "snd (receive_loop self [] messages) = None"
      and "callbacks_on_client_disconnected self (fst (receive_loop self [] messages)) = None"
  shows "queued_frames (calls (patched_receive_messages self messages StopAsyncIteration)) =
     [EndFrame]"
  using assms by (simp add: queued_frames_patched)

section \<open>The credentials\<close>

lemma load_api_keys_error_class:
  "load_api_keys env = Inl e \<Longrightarrow> exc_class e = ''ValueError''"
  by (auto simp: load_api_keys_def ValueError_def split: option.splits if_splits)

lemma load_api_keys_missing:
  assumes "\<not> truthy (getenv env ''DEEPGRAM_API_KEY'')
         \<or> \<not> truthy (getenv env ''OPENAI_API_KEY'')
         \<or> \<not> truthy (getenv env ''ELEVENLABS_API_KEY'')"
  shows "\<exists>msg. load_api_keys env = Inl (PyException ''ValueError'' msg)"
  using assms
  by (auto simp: load_api_keys_def ValueError_def truthy_def split: option.splits)

lemma load_api_keys_present:
  assumes "getenv env ''DEEPGRAM_API_KEY'' = Some d" "d \<noteq> []"
      and "getenv env ''OPENAI_API_KEY'' = Some oa" "oa \<noteq> []"
      and "getenv env ''ELEVENLABS_API_KEY'' = Some el" "el \<noteq> []"
  shows "load_api_keys env =
    Inr \<lparr>deepgram_api_key = d, openai_api_key = oa, elevenlabs_api_key = el\<rparr>"
  using assms by (simp add: load_api_keys_def)

lemma main_module_complete:
  "main_module env_complete [(1::nat, ''sid'', ''tok'', ''wss://rt'')] =
     Inr [run_bot \<lparr>deepgram_api_key = ''dg-key'', openai_api_key = ''oa-key'',
                   elevenlabs_api_key = ''el-key''\<rparr> 1 ''sid'' ''tok'' ''wss://rt'']"
  by (simp add: main_module_def load_api_keys_def getenv_def env_complete_def
      websocket_endpoint_def)

text \<open>
  C7, as the code has it. When one of the three keys is not set, or is set to the empty
  string, importing the module raises a \<open>ValueError\<close>, Python's builtin, and no
  connection is ever served: no bot and no task is built. \<open>ValueError\<close> is the only
  exception the module's own statements raise.
\<close>

theorem missing_credential_raises_ValueError:
  assumes "\<not> truthy (getenv env ''DEEPGRAM_API_KEY'')
         \<or> \<not> truthy (getenv env ''OPENAI_API_KEY'')
         \<or> \<not> truthy (getenv env ''ELEVENLABS_API_KEY'')"
  shows "(\<exists>msg. main_module env connections = Inl (PyException ''ValueError'' msg))
       \<and> (\<forall>env' connections' e.
             main_module env' (connections' :: ('w \<times> string \<times> string \<times> string) list) = Inl e
             \<longrightarrow> exc_class e = ''ValueError'')"
proof -
  from load_api_keys_missing [OF assms]
  obtain msg where "load_api_keys env = Inl (PyException ''ValueError'' msg)" ..
  then have "main_module env connections = Inl (PyException ''ValueError'' msg)"
    by (simp add: main_module_def)
  moreover have "exc_class e = ''ValueError''"
    if "main_module env' connections' = Inl e"
    for env' and connections' :: "('w \<times> string \<times> string \<times> string) list" and e
    using that load_api_keys_error_class [of env' e]
    by (simp add: main_module_def split: sum.splits)
  ultimately show ?thesis by blast
qed

theorem missing_credential_raises_ValueError_witness:
  "\<not> truthy (getenv env_without_openai ''OPENAI_API_KEY'')
   \<and> main_module env_without_openai [(1::nat, ''sid'', ''tok'', ''wss://rt'')] =
       Inl (PyException ''ValueError'' ''OPENAI_API_KEY'')"
proof -
  have h: "\<not> truthy (getenv env_without_openai ''OPENAI_API_KEY'')"
    by (simp add: truthy_def getenv_def env_without_openai_def)
  show ?thesis
    using h
      missing_credential_raises_ValueError [of env_without_openai
        "[(1::nat, ''sid'', ''tok'', ''wss://rt'')]"]
    by (simp add: main_module_def load_api_keys_def getenv_def env_without_openai_def
        ValueError_def)
qed

text \<open>
  With the OpenAI key missing, the exception that stops the import is a \<open>ValueError\<close>;
  its class is not \<open>ConfigurationError\<close>, a class main.py neither defines nor imports.
\<close>

theorem missing_credential_counterexample:
  "main_module env_without_openai [(1::nat, ''sid'', ''tok'', ''wss://rt'')] =
     Inl (PyException ''ValueError'' ''OPENAI_API_KEY'')
   \<and> exc_class (PyException ''ValueError'' ''OPENAI_API_KEY'') \<noteq> ''ConfigurationError''"
  by (simp add: main_module_def load_api_keys_def getenv_def env_without_openai_def
      ValueError_def)

section \<open>Configuration handed to the library\<close>

text \<open>
  The task is created with \<open>allow_interruptions=True\<close>, and the voice-activity analyzer
  with the four parameters of lines 53 to 58. What the library does with them is not
  part of main.py.
\<close>

lemma task_allows_interruptions:
  "allow_interruptions (task_params (bot_task (run_bot keys ws sid tok ep)))"
  by (simp add: run_bot_def Let_def)

lemma vad_params_configured:
  "bot_transport (run_bot keys ws sid tok ep) =
     FastAPIWebsocketTransport ws
       (FastAPIWebsocketParams True True True
          (SileroVADAnalyzer (VADParams (6 / 10) (2 / 10) (12 / 10) (7 / 10))) True
          ProtobufFrameSerializer)"
  by (simp add: run_bot_def Let_def)

end
